theory Spec2Isabelle
  imports Complex_Main "HOL-Library.Sublist"
begin

section \<open>Veterinary dose calculator: the calculation core of dose_calculator.py\<close>

text \<open>
  Numbers are modelled as exact reals: Python's \<open>*\<close>, \<open>-\<close> and true division \<open>/\<close> are
  the field operations, and \<open>== 0\<close>, \<open><\<close>, \<open>>\<close> are the order on \<open>real\<close>. Rounding of
  binary floating point, infinities and NaN are not part of this model. A raised
  \<open>ValueError(msg)\<close> is the value \<open>Inl (ValueError msg)\<close>; a returned tuple is \<open>Inr\<close>.
  Python's \<open>None\<close> for the quantity is \<open>None\<close> of an option.
\<close>

datatype error = ValueError string

subsection \<open>Strings: \<open>str.lower()\<close> and the substring test \<open>in\<close>\<close>

text \<open>
  A unit string is a list of characters. \<open>lower\<close> maps the ASCII capitals to
  their small letters and keeps every other character, which is what \<open>str.lower()\<close> does
  on ASCII text. \<open>str_in pat s\<close> is Python's \<open>pat in s\<close>: \<open>pat\<close> occurs in \<open>s\<close> as a
  contiguous block.
\<close>

definition lower_char :: "char \<Rightarrow> char" where
  "lower_char c =
     (case map_of (zip ''ABCDEFGHIJKLMNOPQRSTUVWXYZ'' ''abcdefghijklmnopqrstuvwxyz'') c of
        Some d \<Rightarrow> d
      | None \<Rightarrow> c)"

definition lower :: "string \<Rightarrow> string" where
  "lower s = map lower_char s"

fun str_in :: "string \<Rightarrow> string \<Rightarrow> bool" where
  "str_in pat [] = (pat = [])"
| "str_in pat (c # cs) = (prefix pat (c # cs) \<or> str_in pat cs)"

subsection \<open>Dose per weight\<close>

definition perform_dose_per_weight_calculation ::
  "real \<Rightarrow> real \<Rightarrow> real \<Rightarrow> string \<Rightarrow> error + (real \<times> real option \<times> string)" where
  "perform_dose_per_weight_calculation weight_kg dose_mg_per_kg concentration_value
       concentration_unit_str =
     (if concentration_value = 0 then Inl (ValueError ''Concentration value cannot be zero.'')
      else
        let total_mg_needed = weight_kg * dose_mg_per_kg;
            unit_lower = lower concentration_unit_str
        in if str_in ''/ml'' unit_lower then
             Inr (total_mg_needed, Some (total_mg_needed / concentration_value), ''mL'')
           else if str_in ''/tablet'' unit_lower \<or> str_in ''mg/tab'' unit_lower then
             Inr (total_mg_needed, Some (total_mg_needed / concentration_value), ''tablets'')
           else Inr (total_mg_needed, None, ''unrecognized_unit''))"

subsection \<open>Infusion preparation\<close>


subsection \<open>Rate and duration\<close>

definition perform_rate_duration_calculation ::
  "real \<Rightarrow> real \<Rightarrow> real \<Rightarrow> string \<Rightarrow> error + (real \<times> real \<times> real)" where
  "perform_rate_duration_calculation total_volume_ml total_drug_mg_in_infusion val mode =
     (if mode = ''rate_from_duration'' then
        let duration_hours = val
        in if duration_hours = 0 then Inl (ValueError ''Duration cannot be zero.'')
           else
             let infusion_rate_mL_per_hour = total_volume_ml / duration_hours;
                 drug_delivery_rate_mg_per_hour = total_drug_mg_in_infusion / duration_hours
             in Inr (infusion_rate_mL_per_hour, duration_hours, drug_delivery_rate_mg_per_hour)
      else if mode = ''duration_from_rate'' then
        let infusion_rate_mL_per_hour = val
        in if infusion_rate_mL_per_hour = 0 then
             Inl (ValueError ''Infusion rate cannot be zero.'')
           else if total_volume_ml = 0 then
             Inl (ValueError
               ''Total volume cannot be zero for drug concentration calculation in this mode.'')
           else
             let duration_hours = total_volume_ml / infusion_rate_mL_per_hour;
                 drug_concentration_mg_per_mL = total_drug_mg_in_infusion / total_volume_ml;
                 drug_delivery_rate_mg_per_hour =
                   infusion_rate_mL_per_hour * drug_concentration_mg_per_mL
             in Inr (infusion_rate_mL_per_hour, duration_hours, drug_delivery_rate_mg_per_hour)
      else Inl (ValueError (''Invalid mode: '' @ mode)))"

subsection \<open>The medication catalog: \<open>load_medications\<close>\<close>

text \<open>
  The file and the \<open>json\<close> library are the environment of \<open>load_medications\<close>. A state of
  the store says whether \<open>os.path.exists(filepath)\<close> holds and, when it does, what
  \<open>open(filepath, 'r')\<close> followed by \<open>json.load(f)\<close> does: raise an exception, or return the
  decoded document. A decoded document is any JSON value, not only an array. The handler
  \<open>except (IOError, json.JSONDecodeError)\<close> catches exactly these two classes;
  \<open>UnicodeDecodeError\<close> (bytes that are not text in the file's encoding) and
  \<open>RecursionError\<close> (nesting deeper than the decoder allows) belong to neither.
\<close>

datatype json =
    JNull
  | JBool bool
  | JInt int
  | JFloat real
  | JString string
  | JArray "json list"
  | JObject "(string \<times> json) list"

datatype py_exception = IOError | JSONDecodeError | UnicodeDecodeError | RecursionError

datatype store = Absent | Present "py_exception + json"

definition caught :: "py_exception \<Rightarrow> bool" where
  "caught e = (e = IOError \<or> e = JSONDecodeError)"

definition load_medications :: "store \<Rightarrow> py_exception + json" where
  "load_medications st =
     (case st of
        Absent \<Rightarrow> Inr (JArray [])
      | Present (Inr medications) \<Rightarrow> Inr medications
      | Present (Inl e) \<Rightarrow> (if caught e then Inr (JArray []) else Inl e))"

section \<open>Properties\<close>

subsection \<open>The substring test\<close>

lemma str_in_iff: "str_in pat s \<longleftrightarrow> (\<exists>ps ss. s = ps @ pat @ ss)"
proof (induction s)
  case Nil
  then show ?case by auto
next
  case (Cons c cs)
  show ?case
  proof
    assume "str_in pat (c # cs)"
    then consider "prefix pat (c # cs)" | "str_in pat cs" by auto
    then show "\<exists>ps ss. c # cs = ps @ pat @ ss"
    proof cases
      case 1
      then obtain ss where "c # cs = pat @ ss" by (auto simp: prefix_def)
      then have "c # cs = [] @ pat @ ss" by simp
      then show ?thesis by blast
    next
      case 2
      with Cons.IH obtain ps ss where "cs = ps @ pat @ ss" by blast
      then have "c # cs = (c # ps) @ pat @ ss" by simp
      then show ?thesis by blast
    qed
  next
    assume "\<exists>ps ss. c # cs = ps @ pat @ ss"
    then obtain ps ss where eq: "c # cs = ps @ pat @ ss" by blast
    show "str_in pat (c # cs)"
    proof (cases ps)
      case Nil
      with eq have "prefix pat (c # cs)" by (simp add: prefix_def)
      then show ?thesis by simp
    next
      case (Cons p ps')
      with eq have "cs = ps' @ pat @ ss" by simp
      with Cons.IH have "str_in pat cs" by blast
      then show ?thesis by simp
    qed
  qed
qed

subsection \<open>Dose per weight\<close>

text \<open>
  C2: with \<open>concentration_value = 0\<close> the dose-per-weight calculation fails with the
  zero-concentration error for every weight, dose and unit string; the check comes before
  the unit is classified, so the unit (liquid, solid or unrecognized) makes no difference.
\<close>

theorem dose_per_weight_zero_concentration:
  "perform_dose_per_weight_calculation weight_kg dose_mg_per_kg 0 concentration_unit_str =
     Inl (ValueError ''Concentration value cannot be zero.'')"
  by (simp add: perform_dose_per_weight_calculation_def)






subsection \<open>Infusion preparation\<close>









subsection \<open>Rate and duration\<close>



text \<open>
  C7: in mode \<open>duration_from_rate\<close> with \<open>total_volume_ml = 0\<close>, every nonzero rate and
  every drug mass give the error "Total volume cannot be zero for drug concentration
  calculation in this mode."; a zero rate is reported first, whatever the volume; and mode
  \<open>rate_from_duration\<close> never fails with that message.
\<close>

theorem rate_duration_zero_volume:
  "(r \<noteq> 0 \<longrightarrow> perform_rate_duration_calculation 0 D r ''duration_from_rate'' =
      Inl (ValueError
        ''Total volume cannot be zero for drug concentration calculation in this mode.'')) \<and>
   perform_rate_duration_calculation V D 0 ''duration_from_rate'' =
      Inl (ValueError ''Infusion rate cannot be zero.'') \<and>
   perform_rate_duration_calculation V D x ''rate_from_duration'' \<noteq>
      Inl (ValueError
        ''Total volume cannot be zero for drug concentration calculation in this mode.'')"
  by (simp add: perform_rate_duration_calculation_def Let_def)

theorem rate_duration_zero_volume_witness:
  "(50::real) \<noteq> 0 \<and>
   perform_rate_duration_calculation 0 100 50 ''duration_from_rate'' =
      Inl (ValueError
        ''Total volume cannot be zero for drug concentration calculation in this mode.'') \<and>
   perform_rate_duration_calculation 0 100 0 ''duration_from_rate'' =
      Inl (ValueError ''Infusion rate cannot be zero.'')"
  using rate_duration_zero_volume [where r = 50 and D = 100 and V = 0] by simp

subsection \<open>The medication catalog\<close>

lemma load_medications_absent: "load_medications Absent = Inr (JArray [])"
  by (simp add: load_medications_def)

lemma load_medications_caught:
  "caught e \<Longrightarrow> load_medications (Present (Inl e)) = Inr (JArray [])"
  by (simp add: load_medications_def)

lemma load_medications_array:
  "load_medications (Present (Inr (JArray records))) = Inr (JArray records)"
  by (simp add: load_medications_def)

text \<open>
  C9: the claim is that \<open>load_medications\<close> never raises and always returns a sequence of
  records, the empty one when the store is absent, unreadable or malformed. The code
  does so for an absent store, for \<open>IOError\<close> and for \<open>JSONDecodeError\<close>, but not in
  general: a file holding the single object \<open>{"commercial_name": "Metacam"}\<close> is returned
  as that object, which is no sequence, and a \<open>UnicodeDecodeError\<close> raised while reading
  is not caught.
\<close>

theorem load_medications_not_a_list:
  "load_medications (Present (Inr (JObject [(''commercial_name'', JString ''Metacam'')]))) =
     Inr (JObject [(''commercial_name'', JString ''Metacam'')]) \<and>
   load_medications (Present (Inl UnicodeDecodeError)) = Inl UnicodeDecodeError"
  by (simp add: load_medications_def caught_def)

end
